theory Spec2Isabelle
  imports Complex_Main "HOL-Library.Log_Nat"
begin

unbundle bit_operations_syntax

section \<open>Vibration signal analysis of the sensor detail page\<close>

text \<open>
  The page converts raw accelerometer ADC samples to acceleration and velocity series,
  computes a magnitude spectrum with the fft.js package, and derives overall statistics,
  the five largest spectral peaks and a severity status.

  A JavaScript \<open>number\<close> is modelled by a \<^typ>\<open>real\<close>: rounding of IEEE doubles, NaN
  and the infinities are outside the model. Array lengths and indices are \<^typ>\<open>nat\<close>.
\<close>

subsection \<open>Calibration: ADC counts to acceleration\<close>

text \<open>
  The \<open>switch (range)\<close> of \<open>adcToAccelerationG\<close>, with its \<open>default\<close> branch (the
  parameter \<open>range\<close> is \<open>rng\<close> here).
\<close>

definition sensitivity :: "real \<Rightarrow> real" where
  "sensitivity rng =
     (if rng = 2 then 17367
      else if rng = 4 then 8684
      else if rng = 8 then 4342
      else if rng = 16 then 2171
      else 17367)"

definition adcToAccelerationG :: "real \<Rightarrow> real \<Rightarrow> real" where
  "adcToAccelerationG adcValue rng =
     (let offset = 512 in (adcValue - offset) / sensitivity rng)"

text \<open>A call without the second argument takes the default \<open>range = 2\<close>.\<close>

definition adcToAccelerationG_default :: "real \<Rightarrow> real" where
  "adcToAccelerationG_default adcValue = adcToAccelerationG adcValue 2"

definition accelerationGToMmPerSecSquared :: "real \<Rightarrow> real" where
  "accelerationGToMmPerSecSquared accelerationG = accelerationG * 9806.65"

subsection \<open>Integration: acceleration to velocity\<close>

text \<open>
  The \<open>for\<close> loop of \<open>accelerationToVelocity\<close>: \<open>i\<close> runs while
  \<open>i < accelerations.length - 1\<close> (a comparison of integers: the bound is \<open>-1\<close> for the
  empty array), and each round pushes the last velocity plus the trapezoid between samples
  \<open>i\<close> and \<open>i + 1\<close>. Both reads are in range under the loop guard, and \<open>velocities\<close> is
  never empty.
\<close>

function accelerationToVelocity_loop ::
  "real list \<Rightarrow> real \<Rightarrow> nat \<Rightarrow> real list \<Rightarrow> real list" where
  "accelerationToVelocity_loop accelerations timeInterval i velocities =
     (if int i < int (length accelerations) - 1
      then let velocity = 0.5 * timeInterval * (accelerations ! i + accelerations ! (i + 1))
           in accelerationToVelocity_loop accelerations timeInterval (i + 1)
                (velocities @ [velocities ! (length velocities - 1) + velocity])
      else velocities)"
  by pat_completeness auto
termination
  by (relation "measure (\<lambda>(a, dt, i, vs). length a - i)") auto

declare accelerationToVelocity_loop.simps [simp del]

definition accelerationToVelocity :: "real list \<Rightarrow> real \<Rightarrow> real list" where
  "accelerationToVelocity accelerations timeInterval =
     accelerationToVelocity_loop accelerations timeInterval 0 [0]"

subsection \<open>Severity status\<close>

datatype status = Normal | Warning | Critical

text \<open>
  The status expression of both revisions of the page:
  \<open>rmsTotal > 0.8 ? "Critical" : rmsTotal > 0.5 ? "Warning" : "Normal"\<close>.
  The two thresholds are literals of the expression.
\<close>

definition vibrationStatus :: "real \<Rightarrow> status" where
  "vibrationStatus rmsTotal =
     (if rmsTotal > 0.8 then Critical else if rmsTotal > 0.5 then Warning else Normal)"

text \<open>The order \<open>Normal < Warning < Critical\<close> of the three levels.\<close>

fun severity_rank :: "status \<Rightarrow> nat" where
  "severity_rank Normal = 0"
| "severity_rank Warning = 1"
| "severity_rank Critical = 2"

subsection \<open>Numbers as text\<close>

text \<open>
  A string made from a number is not computed by the model, because its digits depend on
  the rounding of doubles, which the reals leave out: \<open>5 * 0.707\<close> is the double
  3.5349999999999997 and prints as 3.53 with two digits, where the real product 3.535 would
  print as 3.54. Such a string is a term that names the number and the conversion:
  \<open>NumberToString x\<close> stands for the text of \<open>String(x)\<close> and \<open>NumberToFixed x f\<close> for
  the text of \<open>x.toFixed(f)\<close>, for the double that the code holds where the model holds
  \<open>x\<close>. \<open>Str\<close> is literal text.
\<close>

datatype jsstring = Str string | NumberToString real | NumberToFixed real nat

text \<open>
  The branch of the statistics effect that is taken when the axes hold single numbers
  instead of arrays (a value that is not a number has been replaced by 0): the total rms,
  the largest absolute value, both as the text of \<open>toFixed(3)\<close>, and the status of the
  total rms.
\<close>

record vibrationStats =
  stats_rms :: jsstring
  stats_peak :: jsstring
  stats_status :: status

definition singleValueStats :: "real \<Rightarrow> real \<Rightarrow> real \<Rightarrow> vibrationStats" where
  "singleValueStats hG vG aG =
     (let rmsTotal = sqrt ((hG * hG + vG * vG + aG * aG) / 3);
          peakTotal = max (max \<bar>hG\<bar> \<bar>vG\<bar>) \<bar>aG\<bar>
      in \<lparr>stats_rms = NumberToFixed rmsTotal 3, stats_peak = NumberToFixed peakTotal 3,
          stats_status = vibrationStatus rmsTotal\<rparr>)"

subsection \<open>Spectrum\<close>

datatype error = FFTSizeError

text \<open>
  \<open>Math.pow(2, Math.ceil(Math.log2(timeData.length)))\<close>. For a positive length this is
  \<open>2 ^ nat \<lceil>log 2 n\<rceil>\<close>, which is \<^const>\<open>ceillog2\<close> by definition; for the length 0 the
  logarithm is \<open>-Infinity\<close> and the power is 0.
\<close>

definition nextPow2 :: "nat \<Rightarrow> nat" where
  "nextPow2 n = (if n = 0 then 0 else 2 ^ ceillog2 n)"

text \<open>
  The constructor of the imported fft.js package, which is not part of the repository:
  it stores \<open>size | 0\<close> (the parameter \<open>size\<close> is \<open>sz\<close> here; the conversion to a signed 32-bit integer) and throws
  "FFT size must be a power of two and bigger than 1" when
  \<open>this.size <= 1 || (this.size & (this.size - 1)) !== 0\<close>.
\<close>

definition toInt32 :: "nat \<Rightarrow> int" where
  "toInt32 n = (let m = int n mod 2 ^ 32 in if m \<ge> 2 ^ 31 then m - 2 ^ 32 else m)"

definition FFT_new :: "nat \<Rightarrow> error + nat" where
  "FFT_new sz =
     (let this_size = toInt32 sz
      in if this_size \<le> 1 \<or> this_size AND (this_size - 1) \<noteq> 0
         then Inl FFTSizeError else Inr (nat this_size))"

definition SAMPLING_RATE :: real where
  "SAMPLING_RATE = 50.0"

record spectrum =
  magnitude :: "real list"
  frequency :: "real list"

text \<open>
  \<open>calculateFFT\<close>. The transform of fft.js is a parameter: \<open>realTransform size input j\<close> is
  the value at index \<open>j\<close> of the output buffer (of \<open>2 * size\<close> numbers, real and imaginary
  parts interleaved) after \<open>fft.realTransform(output, input)\<close>. The loop reads the indices
  \<open>2 * i\<close> and \<open>2 * i + 1\<close> for \<open>i < n\<close>, which are inside the buffer since the padded size
  is at least \<open>n\<close>.
\<close>

definition calculateFFT ::
  "(nat \<Rightarrow> real list \<Rightarrow> nat \<Rightarrow> real) \<Rightarrow> real list \<Rightarrow> error + spectrum" where
  "calculateFFT realTransform timeData =
     (let paddedSize = nextPow2 (length timeData)
      in case FFT_new paddedSize of
           Inl e \<Rightarrow> Inl e
         | Inr fft \<Rightarrow>
             let input = take paddedSize timeData @ replicate (paddedSize - length timeData) 0;
                 output = realTransform fft input;
                 n = length timeData;
                 halfLength = n
             in Inr \<lparr>magnitude =
                       map (\<lambda>i. let re = output (i * 2); im = output (i * 2 + 1);
                                     absv = sqrt (re * re + im * im)
                                 in (2.56 / real n) * absv) [0..<halfLength],
                     frequency =
                       map (\<lambda>i. (real i * SAMPLING_RATE) / real n) [0..<halfLength]\<rparr>)"

subsection \<open>Chart data, overall statistics and top peaks\<close>

text \<open>
  The later revision of the page imports its calculation functions from the module
  \<open>@/lib/utils/sensorCalculations\<close>, which is not among the sources. \<open>prepareChartData\<close>
  takes the four functions it calls as a record; \<open>pageCalculations\<close> below fills the record
  with the functions of the same names that the earlier revision defines in the page itself.
  Only \<open>calculateFFT\<close> may throw.
\<close>

record 'e sensorCalculations =
  sc_adcToAccelerationG :: "real \<Rightarrow> real"
  sc_accelerationGToMmPerSecSquared :: "real \<Rightarrow> real"
  sc_accelerationToVelocity :: "real list \<Rightarrow> real \<Rightarrow> real list"
  sc_calculateFFT :: "real list \<Rightarrow> 'e + spectrum"

definition pageCalculations ::
  "(nat \<Rightarrow> real list \<Rightarrow> nat \<Rightarrow> real) \<Rightarrow> error sensorCalculations" where
  "pageCalculations realTransform =
     \<lparr>sc_adcToAccelerationG = adcToAccelerationG_default,
      sc_accelerationGToMmPerSecSquared = accelerationGToMmPerSecSquared,
      sc_accelerationToVelocity = accelerationToVelocity,
      sc_calculateFFT = calculateFFT realTransform\<rparr>"

text \<open>
  \<open>selectedUnit\<close> is compared with two string literals and every other string selects the
  velocity; the axis label is one of four literals. Both are enumerations here.
\<close>

datatype selectedUnit = Acceleration_G | Acceleration_mm_s2 | Other_unit

datatype axisLabel = Label_NoData | Label_G | Label_mm_s2 | Label_mm_s

record topPeak =
  tp_peak :: real
  tp_rms :: jsstring
  tp_frequency :: jsstring

text \<open>
  The result object. Of the two chart objects the model keeps the labels, the data of the
  single dataset and the point colours; the fixed styling fields are left out.
\<close>

record chartData =
  timeLabels :: "jsstring list"
  timeSeries :: "real list"
  freqLabels :: "real list"
  freqSeries :: "real list"
  pointBackgroundColor :: "string list"
  yAxisLabel :: axisLabel
  rmsValue :: jsstring
  peakValue :: jsstring
  peakToPeakValue :: jsstring
  topPeaks :: "topPeak list"

text \<open>The conversion of the raw samples for the selected unit.\<close>

definition processData ::
  "'e sensorCalculations \<Rightarrow> real list \<Rightarrow> selectedUnit \<Rightarrow> real \<Rightarrow> real list \<times> axisLabel" where
  "processData sc rawAxisData unit timeInterval =
     (if unit = Acceleration_G
      then (map (\<lambda>adc. sc_adcToAccelerationG sc adc) rawAxisData, Label_G)
      else if unit = Acceleration_mm_s2
      then (map (\<lambda>adc. sc_accelerationGToMmPerSecSquared sc (sc_adcToAccelerationG sc adc))
              rawAxisData, Label_mm_s2)
      else
        let accelerations =
              map (\<lambda>adc. sc_accelerationGToMmPerSecSquared sc (sc_adcToAccelerationG sc adc))
                rawAxisData
        in (sc_accelerationToVelocity sc accelerations timeInterval, Label_mm_s))"

text \<open>
  "Calculate Overall Statistics in selected unit": the triple \<open>(rms, peak, peakToPeak)\<close>.
  \<open>reduce\<close> with the initial value 0 is a left fold.
\<close>

definition overallStatistics :: "real list \<Rightarrow> real \<times> real \<times> real" where
  "overallStatistics processedData =
     (let rmsv = (if length processedData > 0
                  then sqrt (foldl (\<lambda>sum val. sum + val * val) 0 processedData
                             / real (length processedData))
                  else 0);
          peakv = rmsv / 0.707;
          peakToPeak = peakv * 2
      in (rmsv, peakv, peakToPeak))"

text \<open>
  The indices of the five largest magnitudes: \<open>[...freqMagnitude.keys()]\<close> sorted with the
  comparator \<open>(a, b) => freqMagnitude[b] - freqMagnitude[a]\<close>, then \<open>slice(0, 5)\<close>.
  \<open>Array.prototype.sort\<close> is stable, and a stable sort by a comparator that is the
  difference of two keys has one possible result: that of \<^const>\<open>sort_key\<close> with the
  negated magnitude as the key.
\<close>

definition topIndices :: "real list \<Rightarrow> nat list" where
  "topIndices freqMagnitude =
     take 5 (sort_key (\<lambda>a. - (freqMagnitude ! a)) [0..<length freqMagnitude])"

text \<open>
  One row of the peak table. \<open>freqLabels[idx]\<close> is \<open>undefined\<close> when the frequency array is
  shorter than the magnitude array, and \<open>String(undefined)\<close> is the text "undefined".
\<close>

definition peakRow :: "real list \<Rightarrow> real list \<Rightarrow> nat \<Rightarrow> topPeak" where
  "peakRow freqLabs freqMagnitude idx =
     \<lparr>tp_peak = freqMagnitude ! idx,
      tp_rms = NumberToFixed (freqMagnitude ! idx * 0.707) 2,
      tp_frequency = (if idx < length freqLabs then NumberToString (freqLabs ! idx)
                      else Str ''undefined'')\<rparr>"

definition prepareChartData ::
  "'e sensorCalculations \<Rightarrow> real list \<Rightarrow> selectedUnit \<Rightarrow> real \<Rightarrow> 'e + chartData" where
  "prepareChartData sc rawAxisData unit timeInterval =
     (if length rawAxisData = 0
      then Inr \<lparr>timeLabels = [], timeSeries = [], freqLabels = [], freqSeries = [],
                pointBackgroundColor = [], yAxisLabel = Label_NoData,
                rmsValue = Str ''0.000'', peakValue = Str ''0.000'',
                peakToPeakValue = Str ''0.000'', topPeaks = []\<rparr>
      else
        let n = length rawAxisData;
            tLabels = map (\<lambda>i. NumberToFixed (real i * timeInterval) 2) [0..<n];
            (processedData, yLabel) = processData sc rawAxisData unit timeInterval;
            (rmsv, peakv, peakToPeak) = overallStatistics processedData;
            rmsVal = NumberToFixed rmsv 3;
            peakVal = NumberToFixed peakv 3;
            peakToPeakVal = NumberToFixed peakToPeak 3
        in case sc_calculateFFT sc processedData of
             Inl e \<Rightarrow> Inl e
           | Inr sp \<Rightarrow>
               if length (magnitude sp) = 0 \<or> length (frequency sp) = 0
               then Inr \<lparr>timeLabels = tLabels, timeSeries = processedData,
                         freqLabels = [], freqSeries = [], pointBackgroundColor = [],
                         yAxisLabel = yLabel, rmsValue = rmsVal, peakValue = peakVal,
                         peakToPeakValue = peakToPeakVal, topPeaks = []\<rparr>
               else
                 let freqLabs = drop 1 (frequency sp);
                     freqMagnitude = drop 1 (magnitude sp);
                     colours0 = replicate (length freqMagnitude) ''rgba(75, 192, 192, 0.5)'';
                     top = (if length freqMagnitude > 0 then topIndices freqMagnitude else []);
                     colours = foldl (\<lambda>c idx. c[idx := ''red'']) colours0 top;
                     peaks = map (peakRow freqLabs freqMagnitude) top
                 in Inr \<lparr>timeLabels = tLabels, timeSeries = processedData,
                           freqLabels = freqLabs, freqSeries = freqMagnitude,
                           pointBackgroundColor = colours,
                           yAxisLabel = yLabel, rmsValue = rmsVal, peakValue = peakVal,
                           peakToPeakValue = peakToPeakVal, topPeaks = peaks\<rparr>)"

text \<open>
  A transform for evaluations at concrete inputs. For the size 2, \<open>realTransform\<close> writes the
  sum of the two samples to index 0 and their difference to index 2 (the real parts of the
  bins 0 and 1) and zero to the imaginary parts.
\<close>

definition realTransform_size2 :: "nat \<Rightarrow> real list \<Rightarrow> nat \<Rightarrow> real" where
  "realTransform_size2 sz input j =
     (if j = 0 then input ! 0 + input ! 1
      else if j = 2 then input ! 0 - input ! 1
      else 0)"

section \<open>Properties\<close>

subsection \<open>Calibration\<close>

lemma sensitivity_pos: "0 < sensitivity r"
  by (simp add: sensitivity_def)

text \<open>
  Claim C6. For every ADC value and every range \<open>r\<close>, \<open>adcToAccelerationG\<close> returns
  \<open>(adc - 512) / sensitivity r\<close>, where the sensitivity is 17367, 8684, 4342 and 2171 for the
  ranges 2, 4, 8 and 16 and 17367 for every other range. The function is total, it is
  linear in the ADC value in the sense of a straight line (equal steps of the input give
  equal steps \<open>d / sensitivity r\<close> of the output), strictly increasing in the ADC value for a
  fixed range, and 0 at the ADC value 512 for every range. The ADC value ranges over all
  reals, so in particular over the integers.
\<close>

theorem adcToAccelerationG_linear:
  "adcToAccelerationG adc r = (adc - 512) / sensitivity r \<and>
   sensitivity 2 = 17367 \<and> sensitivity 4 = 8684 \<and>
   sensitivity 8 = 4342 \<and> sensitivity 16 = 2171 \<and>
   (r \<noteq> 2 \<and> r \<noteq> 4 \<and> r \<noteq> 8 \<and> r \<noteq> 16 \<longrightarrow> sensitivity r = 17367) \<and>
   adcToAccelerationG (adc + d) r - adcToAccelerationG adc r = d / sensitivity r \<and>
   (adc < adc' \<longrightarrow> adcToAccelerationG adc r < adcToAccelerationG adc' r) \<and>
   adcToAccelerationG 512 r = 0"
proof -
  have slope: "adcToAccelerationG (adc + d) r - adcToAccelerationG adc r = d / sensitivity r"
    by (simp add: adcToAccelerationG_def diff_divide_distrib [symmetric])
  have mono: "adc < adc' \<longrightarrow> adcToAccelerationG adc r < adcToAccelerationG adc' r"
    using sensitivity_pos [of r] by (simp add: adcToAccelerationG_def divide_strict_right_mono)
  have table: "sensitivity 2 = 17367 \<and> sensitivity 4 = 8684 \<and>
      sensitivity 8 = 4342 \<and> sensitivity 16 = 2171 \<and>
      (r \<noteq> 2 \<and> r \<noteq> 4 \<and> r \<noteq> 8 \<and> r \<noteq> 16 \<longrightarrow> sensitivity r = 17367)"
    by (simp add: sensitivity_def)
  show ?thesis
    using slope mono table by (simp add: adcToAccelerationG_def)
qed

theorem adcToAccelerationG_linear_witness:
  "(3::real) \<noteq> 2 \<and> (3::real) \<noteq> 4 \<and> (3::real) \<noteq> 8 \<and> (3::real) \<noteq> 16 \<and>
   sensitivity 3 = 17367 \<and> (512::real) < 612 \<and>
   adcToAccelerationG 512 3 < adcToAccelerationG 612 3 \<and>
   adcToAccelerationG 612 3 = 100 / 17367"
  using adcToAccelerationG_linear [of 512 3 100 612]
  by (simp add: adcToAccelerationG_def sensitivity_def)

subsection \<open>Integration\<close>

lemma loop_length:
  "length (accelerationToVelocity_loop a dt i vs) = length vs + (length a - 1 - i)"
proof (induction a dt i vs rule: accelerationToVelocity_loop.induct)
  case (1 a dt i vs)
  show ?case
  proof (cases "int i < int (length a) - 1")
    case True
    then show ?thesis
      using 1 by (subst accelerationToVelocity_loop.simps) (simp add: Let_def)
  next
    case False
    then show ?thesis
      by (subst accelerationToVelocity_loop.simps) simp
  qed
qed

lemma loop_prefix:
  "k < length vs \<Longrightarrow> accelerationToVelocity_loop a dt i vs ! k = vs ! k"
proof (induction a dt i vs rule: accelerationToVelocity_loop.induct)
  case (1 a dt i vs)
  show ?case
  proof (cases "int i < int (length a) - 1")
    case True
    then show ?thesis
      using 1 by (subst accelerationToVelocity_loop.simps) (simp add: Let_def nth_append)
  next
    case False
    then show ?thesis
      by (subst accelerationToVelocity_loop.simps) simp
  qed
qed

lemma loop_step:
  "length vs = i + 1 \<Longrightarrow> i \<le> j \<Longrightarrow> j + 1 < length a \<Longrightarrow>
   accelerationToVelocity_loop a dt i vs ! (j + 1) =
   accelerationToVelocity_loop a dt i vs ! j + 0.5 * dt * (a ! j + a ! (j + 1))"
proof (induction a dt i vs rule: accelerationToVelocity_loop.induct)
  case (1 a dt i vs)
  have g: "int i < int (length a) - 1"
    using 1(3,4) by simp
  let ?vs' = "vs @ [vs ! (length vs - 1) + 0.5 * dt * (a ! i + a ! (i + 1))]"
  have unf: "accelerationToVelocity_loop a dt i vs =
             accelerationToVelocity_loop a dt (i + 1) ?vs'"
    using g by (subst accelerationToVelocity_loop.simps) (simp add: Let_def)
  show ?case
  proof (cases "j = i")
    case True
    have new: "accelerationToVelocity_loop a dt (i + 1) ?vs' ! (i + 1) = ?vs' ! (i + 1)"
      by (rule loop_prefix) (simp add: 1(2))
    have old: "accelerationToVelocity_loop a dt (i + 1) ?vs' ! i = ?vs' ! i"
      by (rule loop_prefix) (simp add: 1(2))
    show ?thesis
      using new old True 1(2) by (simp add: unf nth_append)
  next
    case False
    then have "i + 1 \<le> j"
      using 1(3) by simp
    then show ?thesis
      using 1(1) [OF g refl] 1(2,4) by (simp add: unf)
  qed
qed

text \<open>
  Claim C5. For every acceleration series \<open>a\<close> of length \<open>n \<ge> 2\<close> and every time step,
  \<open>accelerationToVelocity\<close> returns a series of the same length whose element 0 is 0 and
  whose element \<open>i + 1\<close> is element \<open>i\<close> plus \<open>0.5 * dt * (a[i] + a[i + 1])\<close>; for every input
  shorter than 2 (the empty one included) it returns the one-element series \<open>[0]\<close>.
\<close>

theorem accelerationToVelocity_trapezoid:
  "(2 \<le> length a \<longrightarrow>
      length (accelerationToVelocity a dt) = length a \<and>
      accelerationToVelocity a dt ! 0 = 0 \<and>
      (\<forall>i. i + 1 < length a \<longrightarrow>
         accelerationToVelocity a dt ! (i + 1) =
         accelerationToVelocity a dt ! i + 0.5 * dt * (a ! i + a ! (i + 1)))) \<and>
   (length a < 2 \<longrightarrow> accelerationToVelocity a dt = [0])"
proof -
  have short: "length a < 2 \<Longrightarrow> accelerationToVelocity a dt = [0]"
    unfolding accelerationToVelocity_def
    by (subst accelerationToVelocity_loop.simps) auto
  then show ?thesis
    unfolding accelerationToVelocity_def
    using loop_step [of "[0]" 0 _ a dt]
    by (auto simp: loop_length loop_prefix)
qed

theorem accelerationToVelocity_trapezoid_witness:
  "2 \<le> length [1, 2, 3 :: real] \<and>
   length (accelerationToVelocity [1, 2, 3] 2) = 3 \<and>
   accelerationToVelocity [1, 2, 3] 2 ! 0 = 0 \<and>
   (0::nat) + 1 < length [1, 2, 3 :: real] \<and>
   accelerationToVelocity [1, 2, 3] 2 ! (0 + 1) = accelerationToVelocity [1, 2, 3] 2 ! 0 + 3 \<and>
   length ([] :: real list) < 2 \<and>
   accelerationToVelocity [] 2 = [0]"
  using accelerationToVelocity_trapezoid [of "[1, 2, 3]" 2]
    accelerationToVelocity_trapezoid [of "[]" 2]
  by simp

subsection \<open>Severity\<close>

text \<open>
  Claim C7, as stated: for every value and thresholds \<open>warn < crit\<close> the status is Critical
  above \<open>crit\<close>, else Warning above \<open>warn\<close>, else Normal, so that the value 6.0 with the
  thresholds 5.0 and 8.0 is a Warning. The status expression of the page has no threshold
  inputs: it compares with the literals 0.8 and 0.5, and the value 6.0 is Critical.
\<close>

theorem vibrationStatus_thresholds_counterexample:
  "(5::real) < 8 \<and>
   (if (6::real) > 8 then Critical else if (6::real) > 5 then Warning else Normal) = Warning \<and>
   vibrationStatus 6 = Critical"
  by (simp add: vibrationStatus_def)

text \<open>
  Claim C7, amended. The thresholds are the fixed values 0.5 and 0.8: for every value the
  status is Critical when the value exceeds 0.8, else Warning when it exceeds 0.5, else
  Normal. A value equal to a threshold stays in the lower band, and the values 0.6, 0.9 and
  0.1 are classified Warning, Critical and Normal.
\<close>

theorem vibrationStatus_bands:
  "(v > 0.8 \<longrightarrow> vibrationStatus v = Critical) \<and>
   (\<not> v > 0.8 \<and> v > 0.5 \<longrightarrow> vibrationStatus v = Warning) \<and>
   (\<not> v > 0.8 \<and> \<not> v > 0.5 \<longrightarrow> vibrationStatus v = Normal) \<and>
   vibrationStatus 0.8 = Warning \<and> vibrationStatus 0.5 = Normal \<and>
   vibrationStatus 0.6 = Warning \<and> vibrationStatus 0.9 = Critical \<and>
   vibrationStatus 0.1 = Normal"
  by (simp add: vibrationStatus_def)

theorem vibrationStatus_bands_witness:
  "(1::real) > 0.8 \<and> vibrationStatus 1 = Critical \<and>
   \<not> (0.7::real) > 0.8 \<and> (0.7::real) > 0.5 \<and> vibrationStatus 0.7 = Warning \<and>
   \<not> (0.2::real) > 0.8 \<and> \<not> (0.2::real) > 0.5 \<and> vibrationStatus 0.2 = Normal"
  using vibrationStatus_bands [of 1] vibrationStatus_bands [of "0.7"]
    vibrationStatus_bands [of "0.2"]
  by simp

text \<open>
  Claim C10. The status is monotone in the classified value: for \<open>v1 \<le> v2\<close>, classified
  against the fixed thresholds 0.5 and 0.8 of the page, the severity of \<open>v1\<close> is at most
  the severity of \<open>v2\<close> in the order Normal, Warning, Critical.
\<close>

theorem vibrationStatus_monotone:
  "v1 \<le> v2 \<Longrightarrow> severity_rank (vibrationStatus v1) \<le> severity_rank (vibrationStatus v2)"
  by (simp add: vibrationStatus_def)

theorem vibrationStatus_monotone_witness:
  "(0.6::real) \<le> 0.9 \<and>
   severity_rank (vibrationStatus 0.6) \<le> severity_rank (vibrationStatus 0.9) \<and>
   severity_rank (vibrationStatus 0.6) = 1 \<and> severity_rank (vibrationStatus 0.9) = 2"
proof -
  have le: "(0.6::real) \<le> 0.9"
    by simp
  show ?thesis
    using le vibrationStatus_monotone [OF le] by (simp add: vibrationStatus_def)
qed

subsection \<open>Spectrum\<close>

lemma toInt32_small: "n < 2 ^ 31 \<Longrightarrow> toInt32 n = int n"
  by (simp add: toInt32_def Let_def)

lemma pow2_and_pred: "(2::int) ^ k AND (2 ^ k - 1) = 0"
  by (metis cancel_comm_monoid_add_class.diff_cancel mask_eq_exp_minus_1
    push_bit_eq_0_iff push_bit_of_1 take_bit_0 take_bit_eq_mask
    take_bit_push_bit)

lemma FFT_new_pow2:
  assumes "1 \<le> k" and "k \<le> 30"
  shows "FFT_new (2 ^ k) = Inr (2 ^ k)"
proof -
  have "(2::nat) ^ k \<le> 2 ^ 30"
    using assms(2) by (rule power_increasing) simp
  then have small: "(2::nat) ^ k < 2 ^ 31"
    by simp
  have "(2::int) ^ 1 \<le> 2 ^ k"
    using assms(1) by (rule power_increasing) simp
  then have big: "\<not> (2::int) ^ k \<le> 1"
    by simp
  show ?thesis
    using big by (simp add: FFT_new_def toInt32_small [OF small] pow2_and_pred)
qed

text \<open>The padded size is the smallest power of two that is at least the length.\<close>

lemma nextPow2_ge: "n \<le> nextPow2 n"
  by (simp add: nextPow2_def le_two_power_ceillog2)

lemma nextPow2_least: "n \<le> 2 ^ k \<Longrightarrow> nextPow2 n \<le> 2 ^ k"
  by (simp add: nextPow2_def ceillog2_le_iff)

lemma nextPow2_is_power: "0 < n \<Longrightarrow> \<exists>k. nextPow2 n = 2 ^ k"
  by (auto simp: nextPow2_def)

lemma FFT_new_nextPow2:
  assumes "2 \<le> n" and "n \<le> 2 ^ 30"
  shows "FFT_new (nextPow2 n) = Inr (nextPow2 n)"
proof -
  have lo: "1 \<le> ceillog2 n"
    using assms(1) by (metis ceillog2_2 ceillog2_mono)
  have hi: "ceillog2 n \<le> 30"
    using assms(2) by (metis ceillog2_2_power ceillog2_mono)
  show ?thesis
    using assms(1) FFT_new_pow2 [OF lo hi] by (simp add: nextPow2_def)
qed

text \<open>
  What \<open>calculateFFT\<close> returns for a series of \<open>n \<ge> 2\<close> samples (and at most \<open>2^30\<close>, the
  largest size the constructor accepts): \<open>n\<close> magnitudes and \<open>n\<close> frequencies, bin \<open>i\<close> with
  the magnitude \<open>(2.56 / n) * sqrt (re^2 + im^2)\<close> of the pair at the indices \<open>2 * i\<close> and
  \<open>2 * i + 1\<close> of the output buffer of the transform of the zero-padded series, and with the
  frequency \<open>i * SAMPLING_RATE / n\<close>.
\<close>

lemma calculateFFT_bins:
  fixes realTransform :: "nat \<Rightarrow> real list \<Rightarrow> nat \<Rightarrow> real"
  assumes "2 \<le> length timeData" and "length timeData \<le> 2 ^ 30"
  defines "n \<equiv> length timeData"
  defines "output \<equiv> realTransform (nextPow2 n) (timeData @ replicate (nextPow2 n - n) 0)"
  shows "\<exists>sp. calculateFFT realTransform timeData = Inr sp \<and>
           length (magnitude sp) = n \<and> length (frequency sp) = n \<and>
           (\<forall>i<n. magnitude sp ! i =
                     (2.56 / real n) * sqrt (output (2 * i) * output (2 * i)
                                             + output (2 * i + 1) * output (2 * i + 1)) \<and>
                   frequency sp ! i = real i * SAMPLING_RATE / real n)"
proof -
  have ok: "FFT_new (nextPow2 n) = Inr (nextPow2 n)"
    unfolding n_def using assms(1,2) by (rule FFT_new_nextPow2)
  have pad: "take (nextPow2 n) timeData = timeData"
    unfolding n_def using nextPow2_ge [of "length timeData"] by simp
  show ?thesis
    unfolding calculateFFT_def
    by (simp add: ok [unfolded n_def] pad [unfolded n_def] Let_def n_def output_def mult.commute)
qed

text \<open>
  Claim C2 says that \<open>calculateFFT\<close> returns an empty spectrum for the empty series, without
  attempting a transform, and one bin at frequency 0 for a single sample, and fails in
  neither case. The function has no branch on the length: the padded size is 0 for the empty
  series and 1 for a single sample, and the constructor of the transform rejects both, so
  the call throws.
\<close>

theorem calculateFFT_degenerate_throws:
  "nextPow2 (length ([] :: real list)) = 0 \<and>
   calculateFFT realTransform [] = Inl FFTSizeError \<and>
   calculateFFT realTransform [x] = Inl FFTSizeError"
  by (simp add: calculateFFT_def nextPow2_def FFT_new_def toInt32_def)

text \<open>
  Claim C1 says that for every non-empty series of length \<open>n\<close> the function pads to the
  smallest power of two that is at least \<open>n\<close> and returns exactly \<open>n\<close> bins with the stated
  magnitudes and frequencies. For \<open>n \<ge> 2\<close> that is \<open>calculateFFT_bins\<close> with \<open>nextPow2_ge\<close>
  and \<open>nextPow2_least\<close>; for \<open>n = 1\<close> the padded size is 1, which the constructor rejects, and
  no bin is returned.
\<close>

theorem calculateFFT_single_sample_throws:
  "nextPow2 (length [x]) = 1 \<and> FFT_new 1 = Inl FFTSizeError \<and>
   calculateFFT realTransform [x] = Inl FFTSizeError"
  by (simp add: calculateFFT_def nextPow2_def FFT_new_def toInt32_def)

lemma nextPow2_3: "nextPow2 (Suc (Suc (Suc 0))) = 4"
proof -
  have "nextPow2 3 = 4"
    by (simp add: nextPow2_def ceillog2_code ceillog2_aux.simps)
  then show ?thesis
    by (simp add: numeral_3_eq_3)
qed

lemma FFT_new_4: "FFT_new 4 = Inr 4"
  by (simp add: FFT_new_def toInt32_def)

text \<open>
  Claim C8 says that the frequencies of the spectrum start at 0, increase strictly and stay
  at or below the Nyquist frequency, half the sampling rate, and that the magnitudes are not
  negative. The loop is commented "Process the first half of the FFT result (up to Nyquist
  frequency)" and its bound is named \<open>halfLength\<close>, but the bound is the full length \<open>n\<close>:
  for three samples the frequencies are 0, 50/3 and 100/3, and the last one is above
  25 = 50/2.
\<close>

theorem calculateFFT_exceeds_Nyquist:
  "\<exists>sp. calculateFFT realTransform [a, b, c] = Inr sp \<and>
     frequency sp = [0, 50 / 3, 100 / 3] \<and>
     SAMPLING_RATE / 2 < frequency sp ! 2"
  by (simp add: calculateFFT_def nextPow2_3 FFT_new_4 SAMPLING_RATE_def upt_rec Let_def)

text \<open>
  The other parts of claim C8 hold whenever a spectrum is returned: the magnitudes are not
  negative, and the frequencies increase strictly from 0.
\<close>

lemma calculateFFT_spectrum_shape:
  assumes "calculateFFT realTransform timeData = Inr sp"
  shows "(\<forall>m\<in>set (magnitude sp). 0 \<le> m) \<and> sorted_wrt (<) (frequency sp) \<and>
         frequency sp ! 0 = 0"
proof -
  let ?n = "length timeData"
  have n: "2 \<le> ?n"
  proof (rule ccontr)
    assume "\<not> 2 \<le> ?n"
    then have "?n = 0 \<or> ?n = 1"
      by linarith
    then have "FFT_new (nextPow2 ?n) = Inl FFTSizeError"
      by (auto simp: nextPow2_def FFT_new_def toInt32_def)
    then show False
      using assms by (simp add: calculateFFT_def)
  qed
  have freq: "frequency sp = map (\<lambda>i. (real i * SAMPLING_RATE) / real ?n) [0..<?n]"
    using assms by (auto simp: calculateFFT_def Let_def split: sum.splits)
  have mag: "m \<in> set (magnitude sp) \<Longrightarrow> 0 \<le> m" for m
    using assms by (auto simp: calculateFFT_def Let_def split: sum.splits)
  have step: "real i * 50 / real ?n < real j * 50 / real ?n" if "i < j" for i j
    using that n by (intro divide_strict_right_mono) auto
  have incr: "sorted_wrt (<) (frequency sp)"
    using step by (simp add: freq sorted_wrt_map sorted_wrt_iff_nth_less SAMPLING_RATE_def)
  have "0 < ?n"
    using n by linarith
  then have "frequency sp ! 0 = 0"
    by (simp add: freq)
  with mag incr show ?thesis
    by blast
qed

subsection \<open>Overall statistics\<close>

text \<open>
  Claim C9. For an empty axis series \<open>prepareChartData\<close> does not fail: it returns the
  statistics "0.000" for rms, peak and peak-to-peak and an empty list of top peaks,
  whatever the calculation functions, the unit and the time step.
\<close>

theorem prepareChartData_empty:
  "\<exists>r. prepareChartData sc [] unit dt = Inr r \<and>
     rmsValue r = Str ''0.000'' \<and> peakValue r = Str ''0.000'' \<and>
     peakToPeakValue r = Str ''0.000'' \<and> topPeaks r = []"
  by (simp add: prepareChartData_def)

lemma foldl_squares:
  "foldl (\<lambda>sum val. sum + val * val) a xs = a + (\<Sum>x\<leftarrow>xs. x * x)" for a :: real
  by (induction xs arbitrary: a) simp_all

lemma overallStatistics_eq:
  assumes "processedData \<noteq> []"
    and "rms = sqrt ((\<Sum>x\<leftarrow>processedData. x * x) / real (length processedData))"
  shows "overallStatistics processedData = (rms, rms / 0.707, 2 * (rms / 0.707))"
  using assms by (simp add: overallStatistics_def foldl_squares Let_def)

text \<open>
  Claim C3. For every non-empty processed time series, the overall statistics of one axis
  are: rms, the square root of the mean of the squared samples; peak, which is
  \<open>rms / 0.707\<close> and not the largest absolute sample; and peak-to-peak, which is twice the
  peak. Whenever \<open>prepareChartData\<close> returns for raw samples that are processed to this
  series, the three values it reports are the texts of \<open>toFixed(3)\<close> of these numbers; the
  digits of the texts are those of the doubles the code computed and are not fixed here.
\<close>

theorem overallStatistics_rms_peak:
  assumes "processedData \<noteq> []"
    and "rms = sqrt ((\<Sum>x\<leftarrow>processedData. x * x) / real (length processedData))"
  shows "overallStatistics processedData = (rms, rms / 0.707, 2 * (rms / 0.707)) \<and>
     (\<forall>(sc :: 'e sensorCalculations) rawAxisData unit dt label r.
        rawAxisData \<noteq> [] \<and>
        processData sc rawAxisData unit dt = (processedData, label) \<and>
        prepareChartData sc rawAxisData unit dt = Inr r \<longrightarrow>
          rmsValue r = NumberToFixed rms 3 \<and>
          peakValue r = NumberToFixed (rms / 0.707) 3 \<and>
          peakToPeakValue r = NumberToFixed (2 * (rms / 0.707)) 3)"
proof -
  have st: "overallStatistics processedData = (rms, rms / 0.707, 2 * (rms / 0.707))"
    using assms by (rule overallStatistics_eq)
  have "rmsValue r = NumberToFixed rms 3 \<and> peakValue r = NumberToFixed (rms / 0.707) 3 \<and>
        peakToPeakValue r = NumberToFixed (2 * (rms / 0.707)) 3"
    if raw: "rawAxisData \<noteq> []"
      and pd: "processData sc rawAxisData unit dt = (processedData, label)"
      and ret: "prepareChartData sc rawAxisData unit dt = Inr r"
    for sc :: "'e sensorCalculations" and rawAxisData unit dt label r
    using ret raw
    by (auto simp: prepareChartData_def pd st Let_def split: sum.splits if_splits)
  with st show ?thesis
    by blast
qed

lemma FFT_new_2: "FFT_new 2 = Inr 2"
  by (simp add: FFT_new_def toInt32_def)

lemma nextPow2_2: "nextPow2 (Suc (Suc 0)) = 2"
  by (simp add: nextPow2_def flip: numeral_2_eq_2)

lemma calculateFFT_size2:
  "calculateFFT realTransform_size2 [p, q] =
     Inr \<lparr>magnitude = [1.28 * \<bar>p + q\<bar>, 1.28 * \<bar>p - q\<bar>], frequency = [0, 25]\<rparr>"
  by (simp add: calculateFFT_def nextPow2_2 FFT_new_2 realTransform_size2_def
      SAMPLING_RATE_def upt_rec Let_def)

theorem overallStatistics_rms_peak_witness:
  "[1, 1] \<noteq> ([] :: real list) \<and>
   (1::real) = sqrt ((\<Sum>x\<leftarrow>[1, 1]. x * x) / real (length [1, 1 :: real])) \<and>
   [17879, 17879] \<noteq> ([] :: real list) \<and>
   processData (pageCalculations realTransform_size2) [17879, 17879] Acceleration_G 0.02
     = ([1, 1], Label_G) \<and>
   overallStatistics [1, 1] = (1, 1 / 0.707, 2 * (1 / 0.707)) \<and>
   (\<exists>r. prepareChartData (pageCalculations realTransform_size2) [17879, 17879]
           Acceleration_G 0.02 = Inr r \<and>
        rmsValue r = NumberToFixed 1 3 \<and>
        peakValue r = NumberToFixed (1 / 0.707) 3 \<and>
        peakToPeakValue r = NumberToFixed (2 * (1 / 0.707)) 3)"
proof -
  let ?sc = "pageCalculations realTransform_size2"
  have raw: "[17879, 17879] \<noteq> ([] :: real list)"
    by simp
  have pd: "processData ?sc [17879, 17879] Acceleration_G 0.02 = ([1, 1], Label_G)"
    by (simp add: processData_def pageCalculations_def adcToAccelerationG_default_def
        adcToAccelerationG_def sensitivity_def)
  have ne: "[1, 1] \<noteq> ([] :: real list)"
    by simp
  have rms: "(1::real) = sqrt ((\<Sum>x\<leftarrow>[1, 1]. x * x) / real (length [1, 1 :: real]))"
    by simp
  note main = overallStatistics_rms_peak [where ?'e = error, OF ne rms]
  have fft: "sc_calculateFFT ?sc [1, 1] =
      Inr \<lparr>magnitude = [1.28 * \<bar>1 + 1\<bar>, 1.28 * \<bar>1 - 1\<bar>], frequency = [0, 25]\<rparr>"
    by (simp add: pageCalculations_def calculateFFT_size2)
  have "\<exists>r. prepareChartData ?sc [17879, 17879] Acceleration_G 0.02 = Inr r"
    using pd fft by (auto simp: prepareChartData_def Let_def split: prod.splits)
  then obtain r where ret: "prepareChartData ?sc [17879, 17879] Acceleration_G 0.02 = Inr r"
    by blast
  have reported: "rmsValue r = NumberToFixed 1 3 \<and>
      peakValue r = NumberToFixed (1 / 0.707) 3 \<and>
      peakToPeakValue r = NumberToFixed (2 * (1 / 0.707)) 3"
    using main raw pd ret by blast
  have stats: "overallStatistics [1, 1] = (1, 1 / 0.707, 2 * (1 / 0.707))"
    using main by (rule conjunct1)
  show ?thesis
    using ne rms raw pd stats ret reported by blast
qed

subsection \<open>Top peaks\<close>

text \<open>
  The order of the sorted indices: by decreasing magnitude, and by increasing index among
  equal magnitudes. Insertion into a list that is ordered this way keeps the order when the
  new index is below all indices of the list.
\<close>

lemma insort_key_lex:
  fixes f :: "nat \<Rightarrow> real"
  assumes "sorted_wrt (\<lambda>a b. f a < f b \<or> (f a = f b \<and> a < b)) ys"
    and "\<forall>y\<in>set ys. x < y"
  shows "sorted_wrt (\<lambda>a b. f a < f b \<or> (f a = f b \<and> a < b)) (insort_key f x ys)"
  using assms
proof (induction ys)
  case Nil
  then show ?case by simp
next
  case (Cons y ys)
  show ?case
  proof (cases "f x \<le> f y")
    case True
    then show ?thesis
      using Cons.prems by (auto simp: less_eq_real_def)
  next
    case False
    then show ?thesis
      using Cons by (auto simp: set_insort_key)
  qed
qed

lemma sort_key_lex:
  fixes f :: "nat \<Rightarrow> real"
  assumes "sorted_wrt (<) xs"
  shows "sorted_wrt (\<lambda>a b. f a < f b \<or> (f a = f b \<and> a < b)) (sort_key f xs)"
  using assms
proof (induction xs)
  case Nil
  then show ?case by simp
next
  case (Cons x xs)
  then show ?case
    by (simp add: insort_key_lex)
qed

lemma sorted_indices_lex:
  "sorted_wrt (\<lambda>a b. fm ! b < fm ! a \<or> (fm ! a = fm ! b \<and> a < b))
     (sort_key (\<lambda>a. - (fm ! a)) [0..<length fm])" for fm :: "real list"
  using sort_key_lex [of "[0..<length fm]" "\<lambda>a. - (fm ! a)"] by simp

lemma topIndices_length: "length (topIndices fm) = min 5 (length fm)"
  by (simp add: topIndices_def min.commute)

lemma topIndices_distinct: "distinct (topIndices fm)"
  by (simp add: topIndices_def)

lemma topIndices_range: "a \<in> set (topIndices fm) \<Longrightarrow> a < length fm"
  using set_take_subset [of 5 "sort_key (\<lambda>a. - (fm ! a)) [0..<length fm]"]
  by (auto simp: topIndices_def)

lemma topIndices_ordered:
  assumes "j < k" and "k < length (topIndices fm)"
  shows "fm ! (topIndices fm ! k) < fm ! (topIndices fm ! j) \<or>
         (fm ! (topIndices fm ! j) = fm ! (topIndices fm ! k) \<and>
          topIndices fm ! j < topIndices fm ! k)"
proof -
  have "sorted_wrt (\<lambda>a b. fm ! b < fm ! a \<or> (fm ! a = fm ! b \<and> a < b)) (topIndices fm)"
    unfolding topIndices_def by (rule sorted_wrt_take) (rule sorted_indices_lex)
  then show ?thesis
    using assms by (simp add: sorted_wrt_iff_nth_less)
qed

lemma topIndices_largest:
  assumes "b < length fm" and "b \<notin> set (topIndices fm)" and "a \<in> set (topIndices fm)"
  shows "fm ! b \<le> fm ! a"
proof -
  let ?s = "sort_key (\<lambda>a. - (fm ! a)) [0..<length fm]"
  have "sorted_wrt (\<lambda>a b. fm ! b < fm ! a \<or> (fm ! a = fm ! b \<and> a < b)) (take 5 ?s @ drop 5 ?s)"
    using sorted_indices_lex [of fm] by simp
  then have split: "\<forall>x\<in>set (take 5 ?s). \<forall>y\<in>set (drop 5 ?s).
      fm ! y < fm ! x \<or> (fm ! x = fm ! y \<and> x < y)"
    unfolding sorted_wrt_append by blast
  have "b \<in> set ?s"
    using assms(1) by simp
  then have "b \<in> set (take 5 ?s) \<union> set (drop 5 ?s)"
    by (metis append_take_drop_id set_append)
  then have "b \<in> set (drop 5 ?s)"
    using assms(2) by (simp add: topIndices_def)
  then show ?thesis
    using split assms(3) by (fastforce simp: topIndices_def)
qed

lemma topIndices_Nil: "topIndices [] = []"
  by (simp add: topIndices_def)

lemma prepareChartData_topPeaks:
  assumes "rawAxisData \<noteq> []"
    and "sc_calculateFFT sc (fst (processData sc rawAxisData unit dt)) = Inr sp"
  shows "\<exists>r. prepareChartData sc rawAxisData unit dt = Inr r \<and>
     topPeaks r =
       (if magnitude sp = [] \<or> frequency sp = [] then []
        else map (peakRow (drop 1 (frequency sp)) (drop 1 (magnitude sp)))
               (topIndices (drop 1 (magnitude sp))))"
proof -
  obtain pd lab where pd: "processData sc rawAxisData unit dt = (pd, lab)"
    by fastforce
  obtain s1 s2 s3 where st: "overallStatistics pd = (s1, s2, s3)"
    using prod_cases3 by blast
  have fft: "sc_calculateFFT sc pd = Inr sp"
    using assms(2) by (simp add: pd)
  show ?thesis
    using assms(1) by (simp add: prepareChartData_def pd st fft Let_def topIndices_Nil)
qed

text \<open>
  Claim C4. For every spectrum (the two arrays have the same length), the list of top peaks
  leaves out the DC bin, has exactly \<open>min 5 (length - 1)\<close> rows, where \<open>length - 1\<close> is the
  number of bins after the DC bin (0 for an empty spectrum), is ordered by non-increasing
  magnitude with equal magnitudes in the order of their bins, and every row reports the
  magnitude and the frequency of its bin and an rms that is the text of \<open>toFixed(2)\<close> of
  the magnitude times 0.707 (the digits are those of the double product). The rows are the largest bins: no bin outside the list exceeds
  one inside. \<open>bins\<close> are the spectrum indices of the rows.
\<close>

theorem topPeaks_ranked:
  assumes "rawAxisData \<noteq> []"
    and "sc_calculateFFT sc (fst (processData sc rawAxisData unit dt)) = Inr sp"
    and "length (magnitude sp) = length (frequency sp)"
  shows "\<exists>r bins. prepareChartData sc rawAxisData unit dt = Inr r \<and>
     length (topPeaks r) = min 5 (length (magnitude sp) - 1) \<and>
     length bins = length (topPeaks r) \<and>
     distinct bins \<and>
     (\<forall>k<length bins.
         1 \<le> bins ! k \<and> bins ! k < length (magnitude sp) \<and>
         tp_peak (topPeaks r ! k) = magnitude sp ! (bins ! k) \<and>
         tp_frequency (topPeaks r ! k) = NumberToString (frequency sp ! (bins ! k)) \<and>
         tp_rms (topPeaks r ! k) = NumberToFixed (magnitude sp ! (bins ! k) * 0.707) 2) \<and>
     (\<forall>j k. j < k \<and> k < length bins \<longrightarrow>
         magnitude sp ! (bins ! k) < magnitude sp ! (bins ! j) \<or>
         (magnitude sp ! (bins ! j) = magnitude sp ! (bins ! k) \<and> bins ! j < bins ! k)) \<and>
     (\<forall>b. 1 \<le> b \<and> b < length (magnitude sp) \<and> b \<notin> set bins \<longrightarrow>
         (\<forall>k<length bins. magnitude sp ! b \<le> magnitude sp ! (bins ! k)))"
proof -
  let ?fm = "drop 1 (magnitude sp)"
  let ?fl = "drop 1 (frequency sp)"
  let ?top = "topIndices ?fm"
  let ?bins = "map Suc ?top"
  obtain r where ret: "prepareChartData sc rawAxisData unit dt = Inr r"
    and peaks: "topPeaks r =
       (if magnitude sp = [] \<or> frequency sp = [] then []
        else map (peakRow ?fl ?fm) ?top)"
    using prepareChartData_topPeaks [OF assms(1,2)] by blast
  have rows: "topPeaks r = map (peakRow ?fl ?fm) ?top"
    using peaks assms(3) by (auto simp: topIndices_Nil)
  have len: "length (topPeaks r) = min 5 (length (magnitude sp) - 1)"
    by (simp add: rows topIndices_length)
  have in_range: "?top ! k < length ?fm" if "k < length ?top" for k
    using that by (intro topIndices_range) simp
  have fm_nth: "?fm ! i = magnitude sp ! Suc i" if "i < length ?fm" for i
    using that by simp
  have fl_nth: "?fl ! i = frequency sp ! Suc i" if "i < length ?fm" for i
    using that assms(3) by simp
  have row: "1 \<le> ?bins ! k \<and> ?bins ! k < length (magnitude sp) \<and>
       tp_peak (topPeaks r ! k) = magnitude sp ! (?bins ! k) \<and>
       tp_frequency (topPeaks r ! k) = NumberToString (frequency sp ! (?bins ! k)) \<and>
       tp_rms (topPeaks r ! k) = NumberToFixed (magnitude sp ! (?bins ! k) * 0.707) 2"
    if "k < length ?bins" for k
  proof -
    have k: "k < length ?top"
      using that by simp
    have i: "?top ! k < length ?fm"
      using k by (rule in_range)
    then have "?top ! k < length ?fl"
      using assms(3) by simp
    then show ?thesis
      using k i fm_nth [OF i] fl_nth [OF i] by (simp add: rows peakRow_def)
  qed
  have order: "magnitude sp ! (?bins ! k) < magnitude sp ! (?bins ! j) \<or>
       (magnitude sp ! (?bins ! j) = magnitude sp ! (?bins ! k) \<and> ?bins ! j < ?bins ! k)"
    if "j < k" and "k < length ?bins" for j k
  proof -
    have k: "k < length ?top" and j: "j < length ?top"
      using that by simp_all
    show ?thesis
      using topIndices_ordered [OF that(1) k] k j
        fm_nth [OF in_range [OF k]] fm_nth [OF in_range [OF j]]
      by simp
  qed
  have largest: "magnitude sp ! b \<le> magnitude sp ! (?bins ! k)"
    if b_pos: "1 \<le> b" and b_len: "b < length (magnitude sp)"
      and b_notin: "b \<notin> set ?bins" and k_len: "k < length ?bins"
    for b k
  proof -
    obtain b' where b': "b = Suc b'"
      using b_pos by (cases b) simp_all
    have k: "k < length ?top"
      using k_len by simp
    have b_range: "b' < length ?fm"
      using b_len b' by simp
    have b_out: "b' \<notin> set ?top"
      using b_notin b' by auto
    have "?fm ! b' \<le> ?fm ! (?top ! k)"
      using b_range b_out by (rule topIndices_largest) (rule nth_mem [OF k])
    then show ?thesis
      using k b' fm_nth [OF b_range] fm_nth [OF in_range [OF k]] by simp
  qed
  have "length ?bins = length (topPeaks r)"
    by (simp add: rows)
  moreover have "distinct ?bins"
    by (simp add: distinct_map topIndices_distinct)
  ultimately show ?thesis
    using ret len row order largest by blast
qed

lemma topIndices_example: "topIndices [1, 3, 3, 0.5, 2, 4] = [5, 1, 2, 4, 0]"
  by (simp add: topIndices_def sort_key_def upt_rec)

text \<open>
  The witness takes the calculation functions of the page with a spectrum of seven bins in
  place of the transform: the bins after the DC bin have the magnitudes 1, 3, 3, 0.5, 2
  and 4, so the five rows are the bins 6, 2, 3, 5 and 1, the two equal magnitudes in bin
  order, and bin 4 is left out.
\<close>

theorem topPeaks_ranked_witness:
  "\<exists>sc sp r.
     sc = (pageCalculations realTransform_size2)
            \<lparr>sc_calculateFFT := \<lambda>timeData. Inr sp\<rparr> \<and>
     sp = \<lparr>magnitude = [9, 1, 3, 3, 0.5, 2, 4], frequency = [0, 10, 20, 30, 40, 50, 60]\<rparr> \<and>
     [512] \<noteq> ([] :: real list) \<and>
     sc_calculateFFT sc (fst (processData sc [512] Acceleration_G 0.02)) = Inr sp \<and>
     length (magnitude sp) = length (frequency sp) \<and>
     prepareChartData sc [512] Acceleration_G 0.02 = Inr r \<and>
     length (topPeaks r) = min 5 (length (magnitude sp) - 1) \<and>
     map tp_peak (topPeaks r) = [4, 3, 3, 2, 1] \<and>
     map tp_frequency (topPeaks r) = map NumberToString [60, 20, 30, 50, 10] \<and>
     map tp_rms (topPeaks r) =
       map (\<lambda>m. NumberToFixed (m * 0.707) 2) [4, 3, 3, 2, 1]"
proof -
  define sp where
    "sp = \<lparr>magnitude = [9, 1, 3, 3, 0.5, 2, 4 :: real],
           frequency = [0, 10, 20, 30, 40, 50, 60 :: real]\<rparr>"
  define sc where
    "sc = (pageCalculations realTransform_size2)
            \<lparr>sc_calculateFFT := \<lambda>timeData :: real list. (Inr sp :: error + spectrum)\<rparr>"
  have raw: "[512] \<noteq> ([] :: real list)"
    by simp
  have fft: "sc_calculateFFT sc (fst (processData sc [512] Acceleration_G 0.02)) = Inr sp"
    by (simp add: sc_def)
  have lens: "length (magnitude sp) = length (frequency sp)"
    by (simp add: sp_def)
  obtain r bins where ret: "prepareChartData sc [512] Acceleration_G 0.02 = Inr r"
    and len: "length (topPeaks r) = min 5 (length (magnitude sp) - 1)"
    using topPeaks_ranked [OF raw fft lens] by blast
  obtain r' where ret': "prepareChartData sc [512] Acceleration_G 0.02 = Inr r'"
    and rows: "topPeaks r' =
       (if magnitude sp = [] \<or> frequency sp = [] then []
        else map (peakRow (drop 1 (frequency sp)) (drop 1 (magnitude sp)))
               (topIndices (drop 1 (magnitude sp))))"
    using prepareChartData_topPeaks [OF raw fft] by blast
  have same: "r' = r"
    using ret ret' by simp
  have fm: "drop 1 (magnitude sp) = [1, 3, 3, 0.5, 2, 4]"
    by (simp add: sp_def)
  have fl: "drop 1 (frequency sp) = [10, 20, 30, 40, 50, 60]"
    by (simp add: sp_def)
  have peaks: "topPeaks r =
      map (peakRow [10, 20, 30, 40, 50, 60] [1, 3, 3, 0.5, 2, 4]) [5, 1, 2, 4, 0]"
  proof -
    have "magnitude sp \<noteq> [] \<and> frequency sp \<noteq> []"
      by (simp add: sp_def)
    then have "topPeaks r = map (peakRow (drop 1 (frequency sp)) (drop 1 (magnitude sp)))
               (topIndices (drop 1 (magnitude sp)))"
      using rows same by simp
    then show ?thesis
      by (simp only: fm fl topIndices_example)
  qed
  have p: "map tp_peak (topPeaks r) = [4, 3, 3, 2, 1]"
    by (simp add: peaks peakRow_def)
  have f: "map tp_frequency (topPeaks r) = map NumberToString [60, 20, 30, 50, 10]"
    by (simp add: peaks peakRow_def)
  have m: "map tp_rms (topPeaks r) =
       map (\<lambda>m. NumberToFixed (m * 0.707) 2) [4, 3, 3, 2, 1]"
    by (simp add: peaks peakRow_def)
  have "sc = (pageCalculations realTransform_size2)
            \<lparr>sc_calculateFFT := \<lambda>timeData. Inr sp\<rparr> \<and>
     sp = \<lparr>magnitude = [9, 1, 3, 3, 0.5, 2, 4], frequency = [0, 10, 20, 30, 40, 50, 60]\<rparr> \<and>
     [512] \<noteq> ([] :: real list) \<and>
     sc_calculateFFT sc (fst (processData sc [512] Acceleration_G 0.02)) = Inr sp \<and>
     length (magnitude sp) = length (frequency sp) \<and>
     prepareChartData sc [512] Acceleration_G 0.02 = Inr r \<and>
     length (topPeaks r) = min 5 (length (magnitude sp) - 1) \<and>
     map tp_peak (topPeaks r) = [4, 3, 3, 2, 1] \<and>
     map tp_frequency (topPeaks r) = map NumberToString [60, 20, 30, 50, 10] \<and>
     map tp_rms (topPeaks r) =
       map (\<lambda>m. NumberToFixed (m * 0.707) 2) [4, 3, 3, 2, 1]"
    using sc_def sp_def raw fft lens ret len p f m by (intro conjI)
  then show ?thesis
    by (intro exI)
qed

end
